theory Spec2Isabelle
  imports Main "HOL-Library.Sublist"
begin

section \<open>JavaScript strings\<close>

text \<open>
  Strings are character lists. The operations below are the ones the enhancer generator
  applies to declaration names and to type expressions.
\<close>

definition startsWith :: "string \<Rightarrow> string \<Rightarrow> bool" where
  \<comment> \<open>\<^verbatim>\<open>s.startsWith(p)\<close>\<close>
  "startsWith s p = prefix p s"

fun join :: "string \<Rightarrow> string list \<Rightarrow> string" where
  \<comment> \<open>\<^verbatim>\<open>xs.join(sep)\<close>\<close>
  "join sep [] = []"
| "join sep [x] = x"
| "join sep (x # y # ys) = x @ sep @ join sep (y # ys)"

fun replace :: "string \<Rightarrow> string \<Rightarrow> string" where
  \<comment> \<open>\<^verbatim>\<open>s.replace(pat, '')\<close> with a string pattern: the first occurrence of \<open>pat\<close>
      (scanning from the left) is cut out, and \<open>s\<close> is returned as it is when there is none.\<close>
  "replace [] pat = []"
| "replace (c # cs) pat =
     (if prefix pat (c # cs) then drop (length pat) (c # cs) else c # replace cs pat)"

fun splitOn :: "char \<Rightarrow> string \<Rightarrow> string list" where
  \<comment> \<open>\<^verbatim>\<open>s.split(sep)\<close> for a separator of one character\<close>
  "splitOn sep [] = [[]]"
| "splitOn sep (c # cs) =
     (if c = sep then [] # splitOn sep cs
      else (case splitOn sep cs of [] \<Rightarrow> [[c]] | w # ws \<Rightarrow> (c # w) # ws))"

definition nthOpt :: "'a list \<Rightarrow> nat \<Rightarrow> 'a option" where
  \<comment> \<open>array indexing and array destructuring: \<open>undefined\<close> (here \<open>None\<close>) past the end\<close>
  "nthOpt xs i = (if i < length xs then Some (xs ! i) else None)"

definition isLower :: "char \<Rightarrow> bool" where
  "isLower c = (97 \<le> (of_char c :: nat) \<and> (of_char c :: nat) \<le> 122)"

definition isUpper :: "char \<Rightarrow> bool" where
  "isUpper c = (65 \<le> (of_char c :: nat) \<and> (of_char c :: nat) \<le> 90)"

definition isDigit :: "char \<Rightarrow> bool" where
  "isDigit c = (48 \<le> (of_char c :: nat) \<and> (of_char c :: nat) \<le> 57)"

definition isLetter :: "char \<Rightarrow> bool" where
  "isLetter c = (isLower c \<or> isUpper c)"

definition upperCaseFirst :: "string \<Rightarrow> string" where
  \<comment> \<open>the \<^verbatim>\<open>upper-case-first\<close> package: the first character in upper case (here for
      the letters a to z, the only ones the prefix below has), the rest unchanged\<close>
  "upperCaseFirst s =
     (case s of [] \<Rightarrow> []
      | c # cs \<Rightarrow> (if isLower c then char_of ((of_char c :: nat) - 32) else c) # cs)"

definition DELEGATE_AUX_RELATION_PREFIX :: string where
  \<comment> \<open>Modelled from the spec: the constant is imported from the runtime package, which is
      not among the sources. The spec calls it the reserved synthetic prefix; the comments of
      the generator name the fields it marks \<^verbatim>\<open>delegate_aux_*\<close>.\<close>
  "DELEGATE_AUX_RELATION_PREFIX = ''delegate_aux''"

section \<open>Regular expressions\<close>

text \<open>
  The generator builds three patterns by string interpolation and runs them with
  \<^verbatim>\<open>RegExp.prototype.test\<close> and \<^verbatim>\<open>String.prototype.match\<close>. The datatype has the
  constructs these patterns parse into; the matcher is the backtracking matcher of
  ECMAScript: alternatives are tried from the left, quantifiers are greedy, and the
  continuation \<open>k\<close> stands for the rest of the pattern.
\<close>

datatype CharClass = ClsDigit | ClsSpace | ClsWord

datatype Regex =
    Str string                    \<comment> \<open>a run of literal characters\<close>
  | Cls CharClass bool            \<comment> \<open>\<^verbatim>\<open>\d \s \w\<close>, and with \<open>True\<close> their complements \<^verbatim>\<open>\D \S \W\<close>\<close>
  | WordB bool                    \<comment> \<open>\<^verbatim>\<open>\b\<close>, and with \<open>True\<close> \<^verbatim>\<open>\B\<close>\<close>
  | Never                         \<comment> \<open>a character no name of the model contains\<close>
  | DotStar                       \<comment> \<open>\<^verbatim>\<open>.*\<close>\<close>
  | DotPlus                       \<comment> \<open>\<^verbatim>\<open>.+\<close>\<close>
  | Seq Regex Regex
  | Alt Regex Regex
  | Opt Regex                     \<comment> \<open>\<^verbatim>\<open>(...)?\<close>\<close>
  | Grp nat Regex                 \<comment> \<open>capture group number \<open>n\<close>\<close>

type_synonym Captures = "(nat \<times> string) list"

definition isWordChar :: "char \<Rightarrow> bool" where
  "isWordChar c = (isLetter c \<or> isDigit c \<or> c = CHR ''_'')"

definition isSpaceChar :: "char \<Rightarrow> bool" where
  "isSpaceChar c = ((9 \<le> (of_char c :: nat) \<and> (of_char c :: nat) \<le> 13)
     \<or> (of_char c :: nat) = 32 \<or> (of_char c :: nat) = 160)"

definition isLineTerminator :: "char \<Rightarrow> bool" where
  "isLineTerminator c = (c = CHR 0x0A \<or> c = CHR 0x0D)"

fun inClass :: "CharClass \<Rightarrow> char \<Rightarrow> bool" where
  "inClass ClsDigit c = isDigit c"
| "inClass ClsSpace c = isSpaceChar c"
| "inClass ClsWord c = isWordChar c"

definition wordAt :: "string \<Rightarrow> nat \<Rightarrow> bool" where
  "wordAt s i = (i < length s \<and> isWordChar (s ! i))"

definition atWordBoundary :: "string \<Rightarrow> nat \<Rightarrow> bool" where
  "atWordBoundary s i = ((0 < i \<and> wordAt s (i - 1)) \<noteq> wordAt s i)"

fun firstSome :: "('a \<Rightarrow> 'b option) \<Rightarrow> 'a list \<Rightarrow> 'b option" where
  "firstSome f [] = None"
| "firstSome f (x # xs) = (case f x of Some r \<Rightarrow> Some r | None \<Rightarrow> firstSome f xs)"

definition dotRun :: "string \<Rightarrow> nat \<Rightarrow> nat" where
  \<comment> \<open>how many characters \<^verbatim>\<open>.\<close> can consume from position \<open>i\<close>\<close>
  "dotRun s i = length (takeWhile (\<lambda>c. \<not> isLineTerminator c) (drop i s))"

fun rmatch :: "Regex \<Rightarrow> string \<Rightarrow> nat \<Rightarrow> Captures
    \<Rightarrow> (nat \<Rightarrow> Captures \<Rightarrow> Captures option) \<Rightarrow> Captures option" where
  "rmatch (Str w) s i cs k =
     (if take (length w) (drop i s) = w then k (i + length w) cs else None)"
| "rmatch (Cls cl neg) s i cs k =
     (if i < length s \<and> (inClass cl (s ! i) \<noteq> neg) then k (i + 1) cs else None)"
| "rmatch (WordB neg) s i cs k =
     (if atWordBoundary s i \<noteq> neg then k i cs else None)"
| "rmatch Never s i cs k = None"
| "rmatch DotStar s i cs k =
     firstSome (\<lambda>n. k (i + n) cs) (rev [0 ..< dotRun s i + 1])"
| "rmatch DotPlus s i cs k =
     firstSome (\<lambda>n. k (i + n) cs) (rev [1 ..< dotRun s i + 1])"
| "rmatch (Seq a b) s i cs k = rmatch a s i cs (\<lambda>j cs'. rmatch b s j cs' k)"
| "rmatch (Alt a b) s i cs k =
     (case rmatch a s i cs k of Some r \<Rightarrow> Some r | None \<Rightarrow> rmatch b s i cs k)"
| "rmatch (Opt a) s i cs k =
     (case rmatch a s i cs k of Some r \<Rightarrow> Some r | None \<Rightarrow> k i cs)"
| "rmatch (Grp n a) s i cs k =
     rmatch a s i cs (\<lambda>j cs'. k j ((n, take (j - i) (drop i s)) # cs'))"

definition regexExec :: "Regex \<Rightarrow> string \<Rightarrow> Captures option" where
  \<comment> \<open>the leftmost match: start positions are tried from \<open>0\<close> on; group \<open>0\<close> is the match\<close>
  "regexExec r s =
     firstSome (\<lambda>i. rmatch (Grp 0 r) s i [] (\<lambda>j cs. Some cs)) [0 ..< length s + 1]"

definition regexTest :: "Regex \<Rightarrow> string \<Rightarrow> bool" where
  \<comment> \<open>\<^verbatim>\<open>regex.test(s)\<close>\<close>
  "regexTest r s = (regexExec r s \<noteq> None)"

definition group :: "Captures \<Rightarrow> nat \<Rightarrow> string option" where
  \<comment> \<open>\<^verbatim>\<open>match[n]\<close>: the text the group captured last, \<open>undefined\<close> when it took no part\<close>
  "group cs n = map_of cs n"

section \<open>The schema graph\<close>

text \<open>
  The resolved schema is a list of declarations. A declaration is an object, and the
  generator compares declarations by identity (\<^verbatim>\<open>base.ref === dm\<close>): the identity of a
  declaration is its position in the list, and a supertype reference holds the position it
  resolved to, or \<open>None\<close> when it did not resolve. A reference to a field is kept as its
  text and the name of the field it resolved to, the only thing the generator reads from
  the field.
\<close>

datatype Expression =
    ReferenceExpr string "string option"  \<comment> \<open>\<^verbatim>\<open>target.$refText\<close> and the name of \<^verbatim>\<open>target.ref\<close>\<close>
  | ArrayExpr "Expression list"
  | InvocationExpr string "Expression list"
  | LiteralExpr string

record AttributeArg =
  argParam :: "string option"         \<comment> \<open>\<^verbatim>\<open>$resolvedParam?.name\<close>\<close>
  argValue :: Expression

record Attribute =
  attrDecl :: string                  \<comment> \<open>\<^verbatim>\<open>decl.$refText\<close>, for instance \<^verbatim>\<open>@@delegate\<close>\<close>
  attrArgs :: "AttributeArg list"

record DataModelField =
  fieldName :: string
  fieldAttributes :: "Attribute list"

record DataModel =
  dmName :: string
  superTypes :: "nat option list"
  dmFields :: "DataModelField list"
  dmAttributes :: "Attribute list"

datatype Declaration = DataModelDecl DataModel | OtherDecl string

record Model =
  declarations :: "Declaration list"

type_synonym DelegateInfo = "(DataModel \<times> DataModel list) list"

definition getAttribute :: "Attribute list \<Rightarrow> string \<Rightarrow> Attribute option" where
  \<comment> \<open>Modelled from the spec: the helper of the SDK package, which is not among the sources;
      the attribute of the given name that the entity or field carries.\<close>
  "getAttribute attrs n = find (\<lambda>a. attrDecl a = n) attrs"

definition getAttributeArg :: "Attribute \<Rightarrow> string \<Rightarrow> Expression option" where
  \<comment> \<open>Modelled from the spec: the helper of the SDK package, which is not among the sources;
      the value of the attribute's argument of the given name (\<^verbatim>\<open>fields\<close>, \<^verbatim>\<open>references\<close>).\<close>
  "getAttributeArg attr n =
     map_option argValue (find (\<lambda>a. argParam a = Some n) (attrArgs attr))"

fun isDataModel :: "Declaration \<Rightarrow> bool" where
  "isDataModel (DataModelDecl dm) = True"
| "isDataModel (OtherDecl x) = False"

fun isDelegateModel :: "Declaration \<Rightarrow> bool" where
  \<comment> \<open>Modelled from the spec: the helper of the SDK package, which is not among the sources;
      an entity that carries the delegate marker.\<close>
  "isDelegateModel (DataModelDecl dm) = (getAttribute (dmAttributes dm) ''@@delegate'' \<noteq> None)"
| "isDelegateModel (OtherDecl x) = False"

definition getDataModels :: "Model \<Rightarrow> (nat \<times> DataModel) list" where
  \<comment> \<open>Modelled from the spec: the helper of the SDK package, which is not among the sources;
      the entities of the schema, each with its identity.\<close>
  "getDataModels m =
     concat (map (\<lambda>(i, d). case d of DataModelDecl dm \<Rightarrow> [(i, dm)] | OtherDecl x \<Rightarrow> [])
       (enumerate 0 (declarations m)))"

definition deref :: "Model \<Rightarrow> nat option \<Rightarrow> DataModel option" where
  \<comment> \<open>\<^verbatim>\<open>superType.ref\<close>: the entity a supertype reference resolved to\<close>
  "deref m r =
     (case r of None \<Rightarrow> None
      | Some i \<Rightarrow> (case nthOpt (declarations m) i of
                    Some (DataModelDecl dm) \<Rightarrow> Some dm
                  | Some (OtherDecl x) \<Rightarrow> None
                  | None \<Rightarrow> None))"

subsection \<open>Delegate hierarchy\<close>

definition hasDelegateModel :: "Model \<Rightarrow> bool" where
  "hasDelegateModel m =
     (let dataModels = getDataModels m in
      list_ex (\<lambda>(i, dm). isDelegateModel (DataModelDecl dm)
                 \<and> list_ex (\<lambda>(j, sub). list_ex (\<lambda>base. base = Some i) (superTypes sub)) dataModels)
        dataModels)"

definition hasAuthInDefault :: "(Attribute \<Rightarrow> bool) \<Rightarrow> Model \<Rightarrow> bool" where
  \<comment> \<open>\<open>isDefaultWithAuth\<close> lives in \<^verbatim>\<open>../enhancer-utils\<close>, which is not among the sources:
      it is a parameter\<close>
  "hasAuthInDefault isDefaultWithAuth m =
     list_ex (\<lambda>(i, dm). list_ex (\<lambda>f. list_ex isDefaultWithAuth (fieldAttributes f)) (dmFields dm))
       (getDataModels m)"

definition needsLogicalClient :: "(Attribute \<Rightarrow> bool) \<Rightarrow> Model \<Rightarrow> bool" where
  "needsLogicalClient isDefaultWithAuth m =
     (hasDelegateModel m \<or> hasAuthInDefault isDefaultWithAuth m)"

definition subModels :: "Model \<Rightarrow> nat \<Rightarrow> DataModel list" where
  \<comment> \<open>\<^verbatim>\<open>declarations.filter((d) => isDataModel(d) && d.superTypes.some((s) => s.ref === dm))\<close>
      for the declaration \<open>dm\<close> at position \<open>i\<close>\<close>
  "subModels m i =
     map snd (filter (\<lambda>(j, d). list_ex (\<lambda>s. s = Some i) (superTypes d)) (getDataModels m))"

definition delegateInfoOf :: "Model \<Rightarrow> DelegateInfo" where
  \<comment> \<open>the map of delegate models and their sub models that \<^verbatim>\<open>processClientTypes\<close> builds\<close>
  "delegateInfoOf m =
     map (\<lambda>(i, dm). (dm, subModels m i))
       (filter (\<lambda>(i, dm). isDelegateModel (DataModelDecl dm)) (getDataModels m))"

definition getDiscriminatorField :: "DataModel \<Rightarrow> string option" where
  "getDiscriminatorField delegate =
     (case getAttribute (dmAttributes delegate) ''@@delegate'' of
        None \<Rightarrow> None
      | Some delegateAttr \<Rightarrow>
          (case nthOpt (attrArgs delegateAttr) 0 of
             None \<Rightarrow> None
           | Some arg \<Rightarrow> (case argValue arg of ReferenceExpr txt r \<Rightarrow> r | _ \<Rightarrow> None)))"

definition pushDiscriminator :: "DataModel \<Rightarrow> string list \<Rightarrow> string list" where
  \<comment> \<open>\<^verbatim>\<open>if (discriminator) result.push(discriminator)\<close>\<close>
  "pushDiscriminator delegate result =
     (case getDiscriminatorField delegate of Some f \<Rightarrow> result @ [f] | None \<Rightarrow> result)"

text \<open>
  \<^verbatim>\<open>getDiscriminatorFieldsRecursively(delegate, result)\<close> mutates the array \<open>result\<close> and
  returns that same array. The loop over the supertypes is the function \<open>walkSuperTypes\<close>:
  the recursive call on a supertype returns \<open>result\<close> itself, in its new state \<open>r\<close>, and
  \<^verbatim>\<open>result.push(...r)\<close> then appends \<open>r\<close> to it. The recursion has no bound of its own, so
  the walk is a partial function: \<open>None\<close> is a walk that does not return.
\<close>

partial_function (option) walkSuperTypes ::
    "Model \<Rightarrow> nat option list \<Rightarrow> string list \<Rightarrow> string list option" where
  "walkSuperTypes m sts result =
     (case sts of
        [] \<Rightarrow> Some result
      | superType # rest \<Rightarrow>
          (case deref m superType of
             None \<Rightarrow> walkSuperTypes m rest result
           | Some base \<Rightarrow>
               Option.bind
                 (if isDelegateModel (DataModelDecl base)
                  then walkSuperTypes m (superTypes base) (pushDiscriminator base result)
                  else Some result)
                 (\<lambda>r. walkSuperTypes m rest (r @ r))))"

definition getDiscriminatorFieldsRecursively ::
    "Model \<Rightarrow> DataModel \<Rightarrow> string list \<Rightarrow> string list option" where
  "getDiscriminatorFieldsRecursively m delegate result =
     (if isDelegateModel (DataModelDecl delegate)
      then walkSuperTypes m (superTypes delegate) (pushDiscriminator delegate result)
      else Some result)"

section \<open>Failures\<close>

text \<open>
  A call either returns a value (\<open>Inr\<close>) or fails (\<open>Inl\<close>): with an exception of the
  JavaScript runtime, with the plugin's own error, or by never returning.
\<close>

datatype Failure =
    SyntaxError                 \<comment> \<open>\<^verbatim>\<open>new RegExp\<close> on an invalid pattern\<close>
  | TypeError                   \<comment> \<open>a property read on \<open>undefined\<close>\<close>
  | NotFound string             \<comment> \<open>\<^verbatim>\<open>getModuleOrThrow\<close>\<close>
  | PluginError string string   \<comment> \<open>plugin name and message\<close>
  | NoReturn                    \<comment> \<open>the call does not return\<close>

fun mapResult :: "('a \<Rightarrow> Failure + 'b) \<Rightarrow> 'a list \<Rightarrow> Failure + 'b list" where
  \<comment> \<open>\<^verbatim>\<open>xs.map(f)\<close> for an \<open>f\<close> that may throw: the first failure ends the loop\<close>
  "mapResult f [] = Inr []"
| "mapResult f (x # xs) =
     (case f x of
        Inl e \<Rightarrow> Inl e
      | Inr y \<Rightarrow> (case mapResult f xs of Inl e \<Rightarrow> Inl e | Inr ys \<Rightarrow> Inr (y # ys)))"

section \<open>The patterns of the generator\<close>

text \<open>
  Entity names are identifiers of the schema language (a letter or an underscore, then
  letters, digits and underscores), so inside a pattern every character of a name stands
  for itself. The one exception is the character that follows the backslash at the head of
  the pattern of \<^verbatim>\<open>removeCreateFromDelegateInput\<close>.
\<close>

definition createUpdateInputSuffix :: "nat \<Rightarrow> Regex" where
  \<comment> \<open>\<^verbatim>\<open>(Unchecked)?(Create|Update).*Input\<close>, its groups numbered from \<open>g\<close>\<close>
  "createUpdateInputSuffix g =
     Seq (Opt (Grp g (Str ''Unchecked'')))
       (Seq (Grp (g + 1) (Alt (Str ''Create'') (Str ''Update'')))
         (Seq DotStar (Str ''Input'')))"

fun alternatives :: "Regex list \<Rightarrow> Regex" where
  "alternatives [] = Str []"
| "alternatives [r] = r"
| "alternatives (r # r' # rs) = Alt r (alternatives (r' # rs))"

definition concreteCreateUpdateInputRegex :: "string list \<Rightarrow> Regex" where
  \<comment> \<open>\<^verbatim>\<open>(${concreteModelNames.join('|')})(Unchecked)?(Create|Update).*Input\<close>\<close>
  "concreteCreateUpdateInputRegex concreteModelNames =
     Seq (Grp 1 (alternatives (map Str concreteModelNames))) (createUpdateInputSuffix 2)"

definition hexValue :: "char \<Rightarrow> nat option" where
  "hexValue c =
     (if isDigit c then Some ((of_char c :: nat) - 48)
      else if 97 \<le> (of_char c :: nat) \<and> (of_char c :: nat) \<le> 102 then Some ((of_char c :: nat) - 87)
      else if 65 \<le> (of_char c :: nat) \<and> (of_char c :: nat) \<le> 70 then Some ((of_char c :: nat) - 55)
      else None)"

fun hexNumber :: "nat \<Rightarrow> string \<Rightarrow> nat option" where
  "hexNumber acc [] = Some acc"
| "hexNumber acc (c # cs) =
     (case hexValue c of None \<Rightarrow> None | Some v \<Rightarrow> hexNumber (16 * acc + v) cs)"

definition escaped :: "char \<Rightarrow> string \<Rightarrow> Regex" where
  \<comment> \<open>what \<^verbatim>\<open>\\<close> followed by the characters \<open>c # cs\<close> of a name parses into (without the
      \<^verbatim>\<open>u\<close> flag, as here, a letter with no meaning of its own stands for itself)\<close>
  "escaped c cs =
     (if c = CHR ''b'' then Seq (WordB False) (Str cs)
      else if c = CHR ''B'' then Seq (WordB True) (Str cs)
      else if c = CHR ''d'' then Seq (Cls ClsDigit False) (Str cs)
      else if c = CHR ''D'' then Seq (Cls ClsDigit True) (Str cs)
      else if c = CHR ''s'' then Seq (Cls ClsSpace False) (Str cs)
      else if c = CHR ''S'' then Seq (Cls ClsSpace True) (Str cs)
      else if c = CHR ''w'' then Seq (Cls ClsWord False) (Str cs)
      else if c = CHR ''W'' then Seq (Cls ClsWord True) (Str cs)
      else if c = CHR ''t'' then Str (CHR 0x09 # cs)
      else if c = CHR ''n'' then Str (CHR 0x0A # cs)
      else if c = CHR ''v'' then Str (CHR 0x0B # cs)
      else if c = CHR ''f'' then Str (CHR 0x0C # cs)
      else if c = CHR ''r'' then Str (CHR 0x0D # cs)
      else if c = CHR ''c'' then
        (case cs of
           [] \<Rightarrow> Str [CHR 0x5C, c]
         | x # xs \<Rightarrow> if isLetter x then Str (char_of ((of_char x :: nat) mod 32) # xs)
                     else Str (CHR 0x5C # c # cs))
      else if c = CHR ''x'' then
        (if 2 \<le> length cs then
           (case hexNumber 0 (take 2 cs) of
              None \<Rightarrow> Str (c # cs)
            | Some v \<Rightarrow> Str (char_of v # drop 2 cs))
         else Str (c # cs))
      else if c = CHR ''u'' then
        (if 4 \<le> length cs then
           (case hexNumber 0 (take 4 cs) of
              None \<Rightarrow> Str (c # cs)
            | Some v \<Rightarrow> if v < 256 then Str (char_of v # drop 4 cs)
                        else Seq Never (Str (drop 4 cs)))
         else Str (c # cs))
      else Str (c # cs))"

fun lastWithSuffix :: "Regex list \<Rightarrow> Regex \<Rightarrow> Regex" where
  \<comment> \<open>\<^verbatim>\<open>a|b|c<suffix>\<close>: the suffix belongs to the last alternative only\<close>
  "lastWithSuffix [] sfx = sfx"
| "lastWithSuffix [r] sfx = Seq r sfx"
| "lastWithSuffix (r # r' # rs) sfx = Alt r (lastWithSuffix (r' # rs) sfx)"

definition delegateCreateUpdateInputRegex :: "string list \<Rightarrow> Failure + Regex" where
  \<comment> \<open>\<^verbatim>\<open>\\${delegateModelNames.join('|')}(Unchecked)?(Create|Update).*Input\<close>: in the
      template literal \<^verbatim>\<open>\\\<close> is one backslash, so the pattern is a backslash, the names
      joined by \<^verbatim>\<open>|\<close>, and the suffix. With no name at all the backslash escapes the
      parenthesis that opens \<^verbatim>\<open>(Unchecked)\<close>, whose closing parenthesis is then unmatched.\<close>
  "delegateCreateUpdateInputRegex delegateModelNames =
     (case delegateModelNames of
        [] \<Rightarrow> Inl SyntaxError
      | [] # [] \<Rightarrow> Inl SyntaxError
      | [] # n # ns \<Rightarrow>
          Inr (lastWithSuffix (Str (CHR ''|'' # n) # map Str ns) (createUpdateInputSuffix 1))
      | (c # cs) # ns \<Rightarrow>
          Inr (lastWithSuffix (escaped c cs # map Str ns) (createUpdateInputSuffix 1)))"

definition nestedMutationInputRegex :: Regex where
  \<comment> \<open>\<^verbatim>\<open>(.+)(Create|Update)Without${upperCaseFirst(DELEGATE_AUX_RELATION_PREFIX)}_(.+)Input\<close>\<close>
  "nestedMutationInputRegex =
     Seq (Grp 1 DotPlus)
       (Seq (Grp 2 (Alt (Str ''Create'') (Str ''Update'')))
         (Seq (Str (''Without'' @ upperCaseFirst DELEGATE_AUX_RELATION_PREFIX @ ''_''))
           (Seq (Grp 3 DotPlus) (Str ''Input''))))"

section \<open>The declaration tree\<close>

text \<open>
  A node of the syntax tree has a kind, a name (for the kinds that have one), its text and
  its children. A declaration is read in two ways: through its structure (the value
  \<^verbatim>\<open>getStructure()\<close> returns, where the type of an alias or of a variable is a string) and
  through the descendants of its node.
\<close>

datatype SyntaxKind = PropertySignature | MethodSignature | TypeLiteral | OtherKind

datatype Node = Node (nodeKind: SyntaxKind) (nodeName: string) (nodeText: string)
  (nodeChildren: "Node list")

fun getDescendants :: "Node \<Rightarrow> Node list" where
  \<comment> \<open>all nodes below the given one, in document order\<close>
  "getDescendants (Node k n t cs) = concat (map (\<lambda>c. c # getDescendants c) cs)"

definition getDescendantsOfKind :: "Node \<Rightarrow> SyntaxKind \<Rightarrow> Node list" where
  "getDescendantsOfKind node k = filter (\<lambda>d. nodeKind d = k) (getDescendants node)"

record TypeAliasStructure =
  tasName :: string
  tasType :: string

record TypeAliasDeclaration =
  taStructure :: TypeAliasStructure
  taNode :: Node

record MemberStructure =
  memName :: string
  memText :: string

record InterfaceStructure =
  ifName :: string
  ifProperties :: "MemberStructure list"
  ifMethods :: "MemberStructure list"

record VariableDeclarationStructure =
  vdName :: string
  vdType :: "string option"

record VariableStatementStructure =
  vsDeclarations :: "VariableDeclarationStructure list"

record VariableStatement =
  vsStructure :: VariableStatementStructure
  vsNode :: Node

text \<open>
  A module block and a source file are the lists of their declarations, one list for each
  category. The categories the generator copies without looking inside are lists of texts;
  \<open>Others\<close> holds the statements of the categories it does not enumerate.
\<close>

record ModuleBlock =
  mbImportEquals :: "string list"
  mbClasses :: "string list"
  mbFunctions :: "string list"
  mbModules :: "string list"
  mbVariableStatements :: "VariableStatement list"
  mbInterfaces :: "InterfaceStructure list"
  mbTypeAliases :: "TypeAliasDeclaration list"
  mbOthers :: "string list"

record ModuleDeclaration =
  modName :: string
  modBlock :: ModuleBlock

record ModuleStructure =
  msName :: string
  msImportEquals :: "string list"
  msClasses :: "string list"
  msFunctions :: "string list"
  msModules :: "string list"
  msVariableStatements :: "VariableStatementStructure list"
  msInterfaces :: "InterfaceStructure list"
  msTypeAliases :: "TypeAliasStructure list"
  msOthers :: "string list"

record SourceFile =
  sfImports :: "string list"
  sfImportEquals :: "string list"
  sfExportAssignments :: "string list"
  sfTypeAliases :: "string list"
  sfClasses :: "string list"
  sfVariableStatements :: "string list"
  sfModules :: "ModuleDeclaration list"
  sfOthers :: "string list"

record SourceFileStructure =
  sfsImports :: "string list"
  sfsImportEquals :: "string list"
  sfsExportAssignments :: "string list"
  sfsTypeAliases :: "string list"
  sfsClasses :: "string list"
  sfsVariableStatements :: "string list"
  sfsModules :: "ModuleStructure list"
  sfsOthers :: "string list"

definition moduleStructure :: "ModuleDeclaration \<Rightarrow> ModuleStructure" where
  \<comment> \<open>\<^verbatim>\<open>getStructure()\<close> of a namespace\<close>
  "moduleStructure md =
     \<lparr> msName = modName md,
       msImportEquals = mbImportEquals (modBlock md),
       msClasses = mbClasses (modBlock md),
       msFunctions = mbFunctions (modBlock md),
       msModules = mbModules (modBlock md),
       msVariableStatements = map vsStructure (mbVariableStatements (modBlock md)),
       msInterfaces = mbInterfaces (modBlock md),
       msTypeAliases = map taStructure (mbTypeAliases (modBlock md)),
       msOthers = mbOthers (modBlock md) \<rparr>"

definition getFullText :: "SourceFile \<Rightarrow> SourceFileStructure" where
  \<comment> \<open>the whole document, as \<^verbatim>\<open>sfNew.replaceWithText(sf.getFullText())\<close> copies it\<close>
  "getFullText sf =
     \<lparr> sfsImports = sfImports sf,
       sfsImportEquals = sfImportEquals sf,
       sfsExportAssignments = sfExportAssignments sf,
       sfsTypeAliases = sfTypeAliases sf,
       sfsClasses = sfClasses sf,
       sfsVariableStatements = sfVariableStatements sf,
       sfsModules = map moduleStructure (sfModules sf),
       sfsOthers = sfOthers sf \<rparr>"

section \<open>The rewrites of the delegate transformation\<close>

definition findNamedProperty :: "TypeAliasDeclaration \<Rightarrow> string option \<Rightarrow> Node option" where
  \<comment> \<open>the name is \<open>None\<close> where the caller passes \<open>undefined\<close>, which no node is named\<close>
  "findNamedProperty typeAlias name =
     find (\<lambda>d. nodeKind d = PropertySignature \<and> Some (nodeName d) = name)
       (getDescendants (taNode typeAlias))"

definition findAuxDecls :: "Node \<Rightarrow> Node list" where
  "findAuxDecls node =
     filter (\<lambda>n. startsWith (nodeName n) DELEGATE_AUX_RELATION_PREFIX)
       (getDescendantsOfKind node PropertySignature)"

definition transformVariableStatement :: "VariableStatement \<Rightarrow> VariableStatementStructure" where
  "transformVariableStatement variable =
     (let structure = vsStructure variable;
          auxFields = findAuxDecls (vsNode variable)
      in if 0 < length auxFields
         then structure\<lparr> vsDeclarations :=
                map (\<lambda>v. v\<lparr> vdType :=
                            foldl (\<lambda>source f. map_option (\<lambda>s. replace s (nodeText f)) source)
                              (vdType v) auxFields \<rparr>)
                  (vsDeclarations structure) \<rparr>
         else structure)"

definition transformInterface :: "InterfaceStructure \<Rightarrow> DelegateInfo \<Rightarrow> InterfaceStructure" where
  "transformInterface iface delegateInfo =
     (let structure = iface\<lparr>
            ifProperties :=
              filter (\<lambda>p. \<not> startsWith (memName p) DELEGATE_AUX_RELATION_PREFIX) (ifProperties iface),
            ifMethods :=
              filter (\<lambda>m. \<not> startsWith (memName m) DELEGATE_AUX_RELATION_PREFIX) (ifMethods iface) \<rparr>
      in if list_ex (\<lambda>(delegate, concretes). dmName delegate @ ''Delegate'' = ifName iface) delegateInfo
         then structure\<lparr> ifMethods :=
                filter (\<lambda>m. \<not> List.member [''create'', ''createMany'', ''upsert''] (memName m))
                  (ifMethods structure) \<rparr>
         else structure)"

definition payloadUnionMember :: "string \<Rightarrow> DataModel \<Rightarrow> string" where
  \<comment> \<open>\<^verbatim>\<open>($${concrete.name}Payload<ExtArgs> & { scalars: { ${discriminatorDecl.name}: '${concrete.name}' } })\<close>\<close>
  "payloadUnionMember discriminatorName concrete =
     ''($'' @ dmName concrete @ ''Payload<ExtArgs> & { scalars: { '' @ discriminatorName
       @ '': '' @ [CHR 0x27] @ dmName concrete @ [CHR 0x27] @ '' } })''"

definition fixDelegatePayloadType :: "TypeAliasDeclaration \<Rightarrow> DelegateInfo \<Rightarrow> string \<Rightarrow> string" where
  "fixDelegatePayloadType typeAlias delegateInfo source =
     (let typeName = tasName (taStructure typeAlias) in
      case find (\<lambda>(delegate, concretes). ''$'' @ dmName delegate @ ''Payload'' = typeName) delegateInfo of
        None \<Rightarrow> source
      | Some payloadRecord \<Rightarrow>
          (case getDiscriminatorField (fst payloadRecord) of
             None \<Rightarrow> source
           | Some discriminatorDecl \<Rightarrow>
               join '' | '' (map (payloadUnionMember discriminatorDecl) (snd payloadRecord))))"

definition removeCreateFromDelegateInput ::
    "TypeAliasDeclaration \<Rightarrow> DelegateInfo \<Rightarrow> string \<Rightarrow> Failure + string" where
  "removeCreateFromDelegateInput typeAlias delegateModels source =
     (let typeName = tasName (taStructure typeAlias);
          delegateModelNames = map (\<lambda>(delegate, concretes). dmName delegate) delegateModels
      in case delegateCreateUpdateInputRegex delegateModelNames of
           Inl e \<Rightarrow> Inl e
         | Inr delegateCreateUpdateInput \<Rightarrow>
             if regexTest delegateCreateUpdateInput typeName
             then Inr (foldl (\<lambda>src r. replace src (nodeText r)) source
                        (filter (\<lambda>p. List.member [''create'', ''connectOrCreate'', ''upsert''] (nodeName p))
                           (getDescendantsOfKind (taNode typeAlias) PropertySignature)))
             else Inr source)"

definition removeDiscriminatorFromConcreteInput ::
    "Model \<Rightarrow> TypeAliasDeclaration \<Rightarrow> DelegateInfo \<Rightarrow> string \<Rightarrow> Failure + string" where
  "removeDiscriminatorFromConcreteInput m typeAlias delegateInfo source =
     (let typeName = tasName (taStructure typeAlias);
          concreteModelNames = concat (map (\<lambda>(delegate, concretes). map dmName concretes) delegateInfo)
      in case regexExec (concreteCreateUpdateInputRegex concreteModelNames) typeName of
           None \<Rightarrow> Inr source
         | Some match \<Rightarrow>
             (let modelName = group match 1 in
              case find (\<lambda>(delegate, concretes). list_ex (\<lambda>c. Some (dmName c) = modelName) concretes)
                     delegateInfo of
                None \<Rightarrow> Inr source
              | Some record \<Rightarrow>
                  (case getDiscriminatorFieldsRecursively m (fst record) [] of
                     None \<Rightarrow> Inl NoReturn
                   | Some discriminators \<Rightarrow>
                       Inr (foldl (\<lambda>src discriminatorDecl.
                                     case findNamedProperty typeAlias (Some discriminatorDecl) of
                                       None \<Rightarrow> src
                                     | Some discriminatorNode \<Rightarrow> replace src (nodeText discriminatorNode))
                              source discriminators))))"

definition removeAuxFieldsFromTypeAlias :: "TypeAliasDeclaration \<Rightarrow> string \<Rightarrow> string" where
  "removeAuxFieldsFromTypeAlias typeAlias source =
     (let auxDecls = findAuxDecls (taNode typeAlias)
      in if 0 < length auxDecls
         then foldl (\<lambda>src d. replace src (nodeText d)) source auxDecls
         else source)"

fun refText :: "Expression \<Rightarrow> Failure + string" where
  \<comment> \<open>\<^verbatim>\<open>(e as ReferenceExpr).target.$refText\<close>: only a reference has a \<open>target\<close>\<close>
  "refText (ReferenceExpr txt r) = Inr txt"
| "refText (ArrayExpr items) = Inl TypeError"
| "refText (InvocationExpr f args) = Inl TypeError"
| "refText (LiteralExpr v) = Inl TypeError"

definition removeDelegateFieldsFromNestedMutationInput ::
    "Model \<Rightarrow> TypeAliasDeclaration \<Rightarrow> DelegateInfo \<Rightarrow> string \<Rightarrow> Failure + string" where
  "removeDelegateFieldsFromNestedMutationInput m typeAlias delegateInfo source =
     (case regexExec nestedMutationInputRegex (tasName (taStructure typeAlias)) of
        None \<Rightarrow> Inr source
      | Some match \<Rightarrow>
          (case group match 3 of
             None \<Rightarrow> Inl TypeError
           | Some nameTuple \<Rightarrow>
               (let parts = splitOn CHR ''_'' nameTuple;
                    modelName = nthOpt parts 0;
                    relationFieldName = nthOpt parts 1;
                    source1 = (case findNamedProperty typeAlias relationFieldName of
                                 None \<Rightarrow> source
                               | Some fieldDef \<Rightarrow> replace source (nodeText fieldDef))
                in case find (\<lambda>(i, d). Some (dmName d) = modelName) (getDataModels m) of
                     None \<Rightarrow> Inr source1
                   | Some (i, relationModel) \<Rightarrow>
                       (case find (\<lambda>f. Some (fieldName f) = relationFieldName) (dmFields relationModel) of
                          None \<Rightarrow> Inr source1
                        | Some relationField \<Rightarrow>
                            (case getAttribute (fieldAttributes relationField) ''@relation'' of
                               None \<Rightarrow> Inr source1
                             | Some relAttr \<Rightarrow>
                                 (case (case getAttributeArg relAttr ''fields'' of
                                          Some (ArrayExpr items) \<Rightarrow> mapResult refText items
                                        | _ \<Rightarrow> Inr []) of
                                    Inl e \<Rightarrow> Inl e
                                  | Inr fkFields \<Rightarrow>
                                      Inr (foldl (\<lambda>src fkField.
                                                    case findNamedProperty typeAlias (Some fkField) of
                                                      None \<Rightarrow> src
                                                    | Some fieldDef \<Rightarrow> replace src (nodeText fieldDef))
                                             source1 fkFields)))))))"

definition transformTypeAlias ::
    "Model \<Rightarrow> TypeAliasDeclaration \<Rightarrow> DelegateInfo \<Rightarrow> Failure + TypeAliasStructure" where
  "transformTypeAlias m typeAlias delegateInfo =
     (let structure = taStructure typeAlias;
          source = removeAuxFieldsFromTypeAlias typeAlias (tasType structure)
      in case removeDiscriminatorFromConcreteInput m typeAlias delegateInfo source of
           Inl e \<Rightarrow> Inl e
         | Inr source2 \<Rightarrow>
             (case removeCreateFromDelegateInput typeAlias delegateInfo source2 of
                Inl e \<Rightarrow> Inl e
              | Inr source3 \<Rightarrow>
                  (case removeDelegateFieldsFromNestedMutationInput m typeAlias delegateInfo source3 of
                     Inl e \<Rightarrow> Inl e
                   | Inr source4 \<Rightarrow>
                       Inr (structure\<lparr> tasType :=
                              fixDelegatePayloadType typeAlias delegateInfo source4 \<rparr>))))"

section \<open>The transformation pass\<close>

definition transformPrismaModule ::
    "Model \<Rightarrow> ModuleDeclaration \<Rightarrow> DelegateInfo \<Rightarrow> Failure + ModuleStructure" where
  \<comment> \<open>the new namespace \<^verbatim>\<open>Prisma\<close>: imports, classes, functions and nested namespaces are
      copied, variables, interfaces and type aliases are transformed\<close>
  "transformPrismaModule m prismaModule delegateInfo =
     (let moduleBlock = modBlock prismaModule;
          newVariables = map transformVariableStatement (mbVariableStatements moduleBlock);
          newInterfaces = map (\<lambda>iface. transformInterface iface delegateInfo) (mbInterfaces moduleBlock)
      in case mapResult (\<lambda>typeAlias. transformTypeAlias m typeAlias delegateInfo)
                (mbTypeAliases moduleBlock) of
           Inl e \<Rightarrow> Inl e
         | Inr newTypeAliases \<Rightarrow>
             Inr \<lparr> msName = ''Prisma'',
                   msImportEquals = mbImportEquals moduleBlock,
                   msClasses = mbClasses moduleBlock,
                   msFunctions = mbFunctions moduleBlock,
                   msModules = mbModules moduleBlock,
                   msVariableStatements = newVariables,
                   msInterfaces = newInterfaces,
                   msTypeAliases = newTypeAliases,
                   msOthers = [] \<rparr>)"

definition transformDelegate ::
    "Model \<Rightarrow> SourceFile \<Rightarrow> DelegateInfo \<Rightarrow> Failure + SourceFileStructure" where
  "transformDelegate m sf delegateInfo =
     (case find (\<lambda>n. modName n = ''Prisma'') (sfModules sf) of
        None \<Rightarrow> Inl (NotFound ''Prisma'')
      | Some prismaModule \<Rightarrow>
          (case transformPrismaModule m prismaModule delegateInfo of
             Inl e \<Rightarrow> Inl e
           | Inr newPrismaModule \<Rightarrow>
               Inr \<lparr> sfsImports = sfImports sf,
                     sfsImportEquals = sfImportEquals sf,
                     sfsExportAssignments = sfExportAssignments sf,
                     sfsTypeAliases = sfTypeAliases sf,
                     sfsClasses = sfClasses sf,
                     sfsVariableStatements = sfVariableStatements sf,
                     sfsModules =
                       map moduleStructure (filter (\<lambda>n. modName n \<noteq> ''Prisma'') (sfModules sf))
                         @ [newPrismaModule],
                     sfsOthers = [] \<rparr>))"

definition processClientTypes :: "Model \<Rightarrow> SourceFile \<Rightarrow> Failure + SourceFileStructure" where
  \<comment> \<open>\<open>sf\<close> is the generated \<^verbatim>\<open>index.d.ts\<close>; the result is what is saved as
      \<^verbatim>\<open>index-fixed.d.ts\<close> (formatting aside)\<close>
  "processClientTypes m sf =
     (let delegateInfo = delegateInfoOf m
      in if 0 < length delegateInfo
         then transformDelegate m sf delegateInfo
         else Inr (getFullText sf))"

section \<open>The generator run\<close>

datatype Stdio = StdioIgnore | StdioInherit

datatype Effect =
    GenerateLogicalSchema string      \<comment> \<open>\<^verbatim>\<open>prismaGenerator.generate\<close> with the output path\<close>
  | ExecPackage string Stdio          \<comment> \<open>an invocation of the external generator\<close>
  | TrackPrismaSchemaError string
  | SaveIndexFixed SourceFileStructure
  | LoadDmmf string
  | SaveModelsDts string
  | CreateEnhanceTs bool              \<comment> \<open>whether the logical client is imported\<close>

definition pluginName :: string where
  \<comment> \<open>\<^verbatim>\<open>name\<close> of the enhancer plugin\<close>
  "pluginName = ''Prisma Enhancer''"

definition generateCmd :: "string \<Rightarrow> string" where
  "generateCmd logicalPrismaFile =
     ''prisma generate --schema \"'' @ logicalPrismaFile @ ''\" --no-engine''"

definition generateLogicalPrisma ::
    "(string \<Rightarrow> Stdio \<Rightarrow> bool) \<Rightarrow> Model \<Rightarrow> string \<Rightarrow> SourceFile
      \<Rightarrow> Effect list \<times> (Failure + unit)" where
  \<comment> \<open>\<open>execPackage cmd stdio\<close> tells whether that invocation of the external generator
      returns (\<open>True\<close>) or throws; \<open>logicalPrismaFile\<close> is the path of \<^verbatim>\<open>logical.prisma\<close> in
      the output directory; \<open>sf\<close> is the \<^verbatim>\<open>index.d.ts\<close> the external generator leaves\<close>
  "generateLogicalPrisma execPackage m logicalPrismaFile sf =
     (let effects1 = [GenerateLogicalSchema logicalPrismaFile,
                      ExecPackage (generateCmd logicalPrismaFile) StdioIgnore]
      in if execPackage (generateCmd logicalPrismaFile) StdioIgnore
         then (case processClientTypes m sf of
                 Inl e \<Rightarrow> (effects1, Inl e)
               | Inr sfNew \<Rightarrow>
                   (effects1 @ [SaveIndexFixed sfNew, LoadDmmf logicalPrismaFile], Inr ()))
         else (let retried = execPackage (generateCmd logicalPrismaFile) StdioInherit
               in (effects1 @ [TrackPrismaSchemaError logicalPrismaFile,
                               ExecPackage (generateCmd logicalPrismaFile) StdioInherit],
                   Inl (PluginError pluginName
                          (''Failed to run \"prisma generate\" on logical schema: '' @ logicalPrismaFile)))))"

definition logicalPrismaClientDir :: string where
  "logicalPrismaClientDir = ''./.logical-prisma-client''"

definition reexport :: "string \<Rightarrow> string" where
  "reexport from = ''export type * from '' @ [CHR 0x27] @ from @ [CHR 0x27] @ '';''"

definition generate ::
    "(Attribute \<Rightarrow> bool) \<Rightarrow> (string \<Rightarrow> Stdio \<Rightarrow> bool) \<Rightarrow> string \<Rightarrow> Model \<Rightarrow> string \<Rightarrow> SourceFile
      \<Rightarrow> Effect list \<times> (Failure + bool)" where
  \<comment> \<open>\<open>prismaImport\<close> is the import specifier of the original client; the result tells
      whether a DMMF document of a logical client is returned\<close>
  "generate isDefaultWithAuth execPackage prismaImport m logicalPrismaFile sf =
     (if needsLogicalClient isDefaultWithAuth m
      then (case generateLogicalPrisma execPackage m logicalPrismaFile sf of
              (effects, Inl e) \<Rightarrow> (effects, Inl e)
            | (effects, Inr u) \<Rightarrow>
                (effects @ [SaveModelsDts (reexport (logicalPrismaClientDir @ ''/index-fixed'')),
                            CreateEnhanceTs True],
                 Inr True))
      else ([SaveModelsDts (reexport prismaImport), CreateEnhanceTs False], Inr False))"

section \<open>The names a rewrite looks for\<close>




definition removeNamed :: "TypeAliasDeclaration \<Rightarrow> string \<Rightarrow> string option list \<Rightarrow> string" where
  \<comment> \<open>for each name in turn, cut the text of the property \<^verbatim>\<open>findNamedProperty\<close> finds\<close>
  "removeNamed typeAlias source names =
     foldl (\<lambda>src n. case findNamedProperty typeAlias n of
                       None \<Rightarrow> src
                     | Some node \<Rightarrow> replace src (nodeText node))
       source names"



section \<open>Type expressions written one member to a line\<close>

text \<open>
  The external generator writes an object type with one member to a line:
  \<^verbatim>\<open>{\<close>, then each property signature indented on a line of its own, then \<^verbatim>\<open>}\<close>.
  Such an expression is a list of lines. A line \<open>Prop indent name text\<close> holds the property
  signature \<open>name\<close> whose text (what \<^verbatim>\<open>getText()\<close> returns: no leading blanks) is
  \<open>text\<close>; a line \<open>Plain text\<close> holds anything else and no member. The expression is the
  lines joined by line breaks, and the property signatures found below the declaration are
  the \<open>Prop\<close> lines, in order.
\<close>

datatype Line = Prop nat string string | Plain string

fun lineText :: "Line \<Rightarrow> string" where
  "lineText (Prop indent name text) = replicate indent CHR '' '' @ text"
| "lineText (Plain text) = text"

definition render :: "Line list \<Rightarrow> string" where
  \<comment> \<open>the text of the type expression\<close>
  "render ls = join [CHR 0x0A] (map lineText ls)"

fun lineNodes :: "Line \<Rightarrow> Node list" where
  "lineNodes (Prop indent name text) = [Node PropertySignature name text []]"
| "lineNodes (Plain text) = []"

definition propNodes :: "Line list \<Rightarrow> Node list" where
  \<comment> \<open>the property signatures of the expression, in document order\<close>
  "propNodes ls = concat (map lineNodes ls)"

definition propNames :: "Line list \<Rightarrow> string list" where
  "propNames ls = map nodeName (propNodes ls)"

definition aliasOf :: "string \<Rightarrow> Line list \<Rightarrow> TypeAliasDeclaration" where
  \<comment> \<open>the declaration \<^verbatim>\<open>type <name> = <lines>\<close>\<close>
  "aliasOf name ls =
     \<lparr> taStructure = \<lparr> tasName = name, tasType = render ls \<rparr>,
       taNode = Node OtherKind name (''type '' @ name @ '' = '' @ render ls)
                  [Node TypeLiteral [] (render ls) (propNodes ls)] \<rparr>"











section \<open>Schemas without cycles and with resolved keys\<close>

definition superTypeEdges :: "Model \<Rightarrow> (nat \<times> nat) set" where
  \<comment> \<open>the pairs (supertype, entity) the walk follows: from a delegate-marked entity to each
      supertype its references resolve to\<close>
  "superTypeEdges m =
     set (concat (map (\<lambda>(i, dm).
            if isDelegateModel (DataModelDecl dm)
            then concat (map (\<lambda>s. case s of
                                     None \<Rightarrow> []
                                   | Some j \<Rightarrow> (case deref m s of None \<Rightarrow> [] | Some base \<Rightarrow> [(j, i)]))
                           (superTypes dm))
            else [])
       (getDataModels m)))"


section \<open>Example schemas and declarations\<close>

definition delegateMarker :: "string \<Rightarrow> Attribute" where
  \<comment> \<open>\<^verbatim>\<open>@@delegate(f)\<close> with a reference that resolves to the field \<open>f\<close>\<close>
  "delegateMarker f =
     \<lparr> attrDecl = ''@@delegate'',
       attrArgs = [\<lparr> argParam = None, argValue = ReferenceExpr f (Some f) \<rparr>] \<rparr>"

definition plainField :: "string \<Rightarrow> DataModelField" where
  "plainField n = \<lparr> fieldName = n, fieldAttributes = [] \<rparr>"

text \<open>The two-level hierarchy \<open>Base \<rightarrow> Mid \<rightarrow> Leaf\<close>.\<close>

definition baseModel :: DataModel where
  "baseModel = \<lparr> dmName = ''Base'', superTypes = [],
                 dmFields = [plainField ''id'', plainField ''kind''],
                 dmAttributes = [delegateMarker ''kind''] \<rparr>"

definition midModel :: DataModel where
  "midModel = \<lparr> dmName = ''Mid'', superTypes = [Some 0],
                dmFields = [plainField ''type''],
                dmAttributes = [delegateMarker ''type''] \<rparr>"

definition leafModel :: DataModel where
  "leafModel = \<lparr> dmName = ''Leaf'', superTypes = [Some 1],
                 dmFields = [plainField ''url''], dmAttributes = [] \<rparr>"

definition twoLevelModel :: Model where
  "twoLevelModel =
     \<lparr> declarations = [DataModelDecl baseModel, DataModelDecl midModel, DataModelDecl leafModel] \<rparr>"

text \<open>Two delegate-marked entities that name each other as supertype.\<close>

definition cycleA :: DataModel where
  "cycleA = \<lparr> dmName = ''A'', superTypes = [Some 1], dmFields = [plainField ''kind''],
              dmAttributes = [delegateMarker ''kind''] \<rparr>"

definition cycleB :: DataModel where
  "cycleB = \<lparr> dmName = ''B'', superTypes = [Some 0], dmFields = [plainField ''type''],
              dmAttributes = [delegateMarker ''type''] \<rparr>"

definition cyclicModel :: Model where
  "cyclicModel = \<lparr> declarations = [DataModelDecl cycleA, DataModelDecl cycleB] \<rparr>"

definition emptyModuleBlock :: ModuleBlock where
  "emptyModuleBlock =
     \<lparr> mbImportEquals = [], mbClasses = [], mbFunctions = [], mbModules = [],
       mbVariableStatements = [], mbInterfaces = [], mbTypeAliases = [], mbOthers = [] \<rparr>"

definition sourceFileOf :: "ModuleBlock \<Rightarrow> SourceFile" where
  \<comment> \<open>a document whose only statement is the namespace \<^verbatim>\<open>Prisma\<close> with the given block\<close>
  "sourceFileOf block =
     \<lparr> sfImports = [], sfImportEquals = [], sfExportAssignments = [], sfTypeAliases = [],
       sfClasses = [], sfVariableStatements = [],
       sfModules = [\<lparr> modName = ''Prisma'', modBlock = block \<rparr>], sfOthers = [] \<rparr>"

fun retrySucceeds :: "string \<Rightarrow> Stdio \<Rightarrow> bool" where
  \<comment> \<open>an external generator that fails on the silent invocation and succeeds on the verbose one\<close>
  "retrySucceeds cmd StdioIgnore = False"
| "retrySucceeds cmd StdioInherit = True"

section \<open>The specification's wording\<close>

definition specNeedsProjection :: "Model \<Rightarrow> bool" where
  \<comment> \<open>the specification: true iff any entity is delegate-marked and has at least one subtype\<close>
  "specNeedsProjection m =
     list_ex (\<lambda>(i, dm). isDelegateModel (DataModelDecl dm) \<and> subModels m i \<noteq> [])
       (getDataModels m)"

definition specPayloadUnionMember :: "string \<Rightarrow> DataModel \<Rightarrow> string" where
  \<comment> \<open>the specification: \<^verbatim>\<open>($<Subtype>Payload & { scalars: { <discriminatorName>: '<SubtypeName>' } })\<close>\<close>
  "specPayloadUnionMember discriminatorName concrete =
     ''($'' @ dmName concrete @ ''Payload & { scalars: { '' @ discriminatorName
       @ '': '' @ [CHR 0x27] @ dmName concrete @ [CHR 0x27] @ '' } })''"

fun savedModelsDts :: "Effect list \<Rightarrow> string list" where
  \<comment> \<open>the contents saved as the re-export module \<^verbatim>\<open>models.d.ts\<close>\<close>
  "savedModelsDts [] = []"
| "savedModelsDts (SaveModelsDts t # es) = t # savedModelsDts es"
| "savedModelsDts (e # es) = savedModelsDts es"

fun logicalSchemas :: "Effect list \<Rightarrow> string list" where
  \<comment> \<open>the logical schemas generated, one for each time the logical path is taken\<close>
  "logicalSchemas [] = []"
| "logicalSchemas (GenerateLogicalSchema f # es) = f # logicalSchemas es"
| "logicalSchemas (e # es) = logicalSchemas es"

section \<open>More example schemas and declarations\<close>

text \<open>\<open>Base\<close> with the concrete subtypes \<open>A\<close> and \<open>B\<close>.\<close>

definition modelA :: DataModel where
  "modelA = \<lparr> dmName = ''A'', superTypes = [Some 0], dmFields = [], dmAttributes = [] \<rparr>"

definition modelB :: DataModel where
  "modelB = \<lparr> dmName = ''B'', superTypes = [Some 0], dmFields = [], dmAttributes = [] \<rparr>"

definition baseABModel :: Model where
  "baseABModel =
     \<lparr> declarations = [DataModelDecl baseModel, DataModelDecl modelA, DataModelDecl modelB] \<rparr>"

definition flatRecord :: string where
  "flatRecord = ''{ name: \"Base\"; scalars: { id: string; kind: string } }''"

definition basePayloadAlias :: TypeAliasDeclaration where
  \<comment> \<open>\<^verbatim>\<open>type $BasePayload = { name: "Base"; scalars: { id: string; kind: string } }\<close>\<close>
  "basePayloadAlias =
     \<lparr> taStructure = \<lparr> tasName = ''$BasePayload'', tasType = flatRecord \<rparr>,
       taNode = Node OtherKind ''$BasePayload'' (''type $BasePayload = '' @ flatRecord)
         [Node TypeLiteral [] flatRecord
           [Node PropertySignature ''name'' ''name: \"Base\";'' [],
            Node PropertySignature ''scalars'' ''scalars: { id: string; kind: string }''
              [Node TypeLiteral [] ''{ id: string; kind: string }''
                [Node PropertySignature ''id'' ''id: string;'' [],
                 Node PropertySignature ''kind'' ''kind: string'' []]]]] \<rparr>"

text \<open>
  A schema without hierarchy: \<open>Base\<close> carries the delegate marker and no entity extends it;
  \<open>Post\<close> has a field whose default calls \<^verbatim>\<open>auth()\<close>.
\<close>

definition defaultCallsAuth :: "Attribute \<Rightarrow> bool" where
  \<comment> \<open>an instance of the parameter \<open>isDefaultWithAuth\<close>\<close>
  "defaultCallsAuth attr =
     (attrDecl attr = ''@default''
      \<and> list_ex (\<lambda>a. argValue a = InvocationExpr ''auth'' []) (attrArgs attr))"

definition postModel :: DataModel where
  "postModel =
     \<lparr> dmName = ''Post'', superTypes = [],
       dmFields = [\<lparr> fieldName = ''owner'',
                     fieldAttributes = [\<lparr> attrDecl = ''@default'',
                                           attrArgs = [\<lparr> argParam = Some ''value'',
                                                         argValue = InvocationExpr ''auth'' [] \<rparr>] \<rparr>] \<rparr>],
       dmAttributes = [] \<rparr>"

definition loneDelegateModel :: Model where
  "loneDelegateModel = \<lparr> declarations = [DataModelDecl baseModel, DataModelDecl postModel] \<rparr>"

definition authOnlyModel :: Model where
  "authOnlyModel = \<lparr> declarations = [DataModelDecl postModel] \<rparr>"

definition baseDelegateInterface :: InterfaceStructure where
  \<comment> \<open>\<^verbatim>\<open>interface BaseDelegate { findMany(): void; create(): void }\<close>\<close>
  "baseDelegateInterface =
     \<lparr> ifName = ''BaseDelegate'', ifProperties = [],
       ifMethods = [\<lparr> memName = ''findMany'', memText = ''findMany(): void'' \<rparr>,
                    \<lparr> memName = ''create'', memText = ''create(): void'' \<rparr>] \<rparr>"

definition baseClientBlock :: ModuleBlock where
  "baseClientBlock =
     emptyModuleBlock\<lparr> mbInterfaces := [baseDelegateInterface],
                       mbTypeAliases := [basePayloadAlias] \<rparr>"

fun alwaysSucceeds :: "string \<Rightarrow> Stdio \<Rightarrow> bool" where
  "alwaysSucceeds cmd stdio = True"

section \<open>Example hierarchies and type expressions\<close>

text \<open>
  \<open>Asset\<close> is a delegate with the discriminator \<open>type\<close>, extended by \<open>Video\<close>.
\<close>

definition assetEntity :: DataModel where
  "assetEntity = \<lparr> dmName = ''Asset'', superTypes = [],
                   dmFields = [plainField ''id'', plainField ''mimetype'', plainField ''type''],
                   dmAttributes = [delegateMarker ''type''] \<rparr>"

definition videoEntity :: DataModel where
  "videoEntity = \<lparr> dmName = ''Video'', superTypes = [Some 0],
                   dmFields = [plainField ''url''], dmAttributes = [] \<rparr>"

definition mediaSchema :: Model where
  "mediaSchema = \<lparr> declarations = [DataModelDecl assetEntity, DataModelDecl videoEntity] \<rparr>"

text \<open>
  A catalogue with two delegate-marked entities, \<open>Asset\<close> and \<open>Video\<close>, and an entity
  \<open>User\<close> outside the hierarchy.
\<close>

definition videoDelegate :: DataModel where
  "videoDelegate = \<lparr> dmName = ''Video'', superTypes = [Some 0],
                     dmFields = [plainField ''url'', plainField ''format''],
                     dmAttributes = [delegateMarker ''format''] \<rparr>"

definition clipEntity :: DataModel where
  "clipEntity = \<lparr> dmName = ''Clip'', superTypes = [Some 1],
                  dmFields = [plainField ''seconds''], dmAttributes = [] \<rparr>"

definition userEntity :: DataModel where
  "userEntity = \<lparr> dmName = ''User'', superTypes = [],
                  dmFields = [plainField ''id'', plainField ''assets''], dmAttributes = [] \<rparr>"

definition catalogSchema :: Model where
  "catalogSchema =
     \<lparr> declarations = [DataModelDecl assetEntity, DataModelDecl videoDelegate,
                        DataModelDecl clipEntity, DataModelDecl userEntity] \<rparr>"

text \<open>A single delegate whose name starts with \<open>W\<close>.\<close>

definition workspaceEntity :: DataModel where
  "workspaceEntity = \<lparr> dmName = ''Workspace'', superTypes = [],
                       dmFields = [plainField ''id'', plainField ''kind''],
                       dmAttributes = [delegateMarker ''kind''] \<rparr>"

definition teamEntity :: DataModel where
  "teamEntity = \<lparr> dmName = ''Team'', superTypes = [Some 0],
                  dmFields = [plainField ''size''], dmAttributes = [] \<rparr>"

definition workspaceSchema :: Model where
  "workspaceSchema = \<lparr> declarations = [DataModelDecl workspaceEntity, DataModelDecl teamEntity] \<rparr>"

text \<open>Object types as the external generator writes them.\<close>

definition leafCreateLines :: "Line list" where
  "leafCreateLines =
     [Plain ''{'',
      Prop 4 ''id'' ''id?: string'',
      Prop 4 ''kind'' ''kind: string'',
      Prop 4 ''type'' ''type: string'',
      Prop 4 ''url'' ''url: string'',
      Plain ''}'']"

definition leafBlankedLines :: "Line list" where
  "leafBlankedLines =
     [Plain ''{'',
      Prop 4 ''id'' ''id?: string'',
      Plain ''    '',
      Plain ''    '',
      Prop 4 ''url'' ''url: string'',
      Plain ''}'']"

definition videoCreateLines :: "Line list" where
  "videoCreateLines =
     [Plain ''{'',
      Prop 4 ''id'' ''id?: string'',
      Prop 4 ''mimetype'' ''mimetype: string'',
      Prop 4 ''type'' ''type: string'',
      Prop 4 ''url'' ''url: string'',
      Plain ''}'']"

definition userNestedLines :: "Line list" where
  "userNestedLines =
     [Plain ''{'',
      Prop 4 ''create'' ''create?: UserCreateWithoutAssetsInput'',
      Prop 4 ''connectOrCreate'' ''connectOrCreate?: UserCreateOrConnectWithoutAssetsInput'',
      Prop 4 ''connect'' ''connect?: UserWhereUniqueInput'',
      Plain ''}'']"

definition workspaceNestedLines :: "Line list" where
  "workspaceNestedLines =
     [Plain ''{'',
      Prop 4 ''create'' ''create?: WorkspaceCreateWithoutMembersInput'',
      Prop 4 ''connect'' ''connect?: WorkspaceWhereUniqueInput'',
      Plain ''}'']"














section \<open>Properties: the discriminator walk\<close>

lemma walkSuperTypes_Nil [simp, code]: "walkSuperTypes m [] result = Some result"
  by (subst walkSuperTypes.simps) simp

lemma walkSuperTypes_Cons [simp, code]:
  "walkSuperTypes m (superType # rest) result =
     (case deref m superType of
        None \<Rightarrow> walkSuperTypes m rest result
      | Some base \<Rightarrow>
          Option.bind
            (if isDelegateModel (DataModelDecl base)
             then walkSuperTypes m (superTypes base) (pushDiscriminator base result)
             else Some result)
            (\<lambda>r. walkSuperTypes m rest (r @ r)))"
  by (subst walkSuperTypes.simps) simp

lemma in_getDataModels:
  "(i, dm) \<in> set (getDataModels m)
     \<longleftrightarrow> i < length (declarations m) \<and> declarations m ! i = DataModelDecl dm"
  by (auto simp: getDataModels_def in_set_enumerate_eq split: Declaration.splits)

lemma deref_Some_iff:
  "deref m s = Some base \<longleftrightarrow> (\<exists>j. s = Some j \<and> (j, base) \<in> set (getDataModels m))"
  by (auto simp: deref_def nthOpt_def in_getDataModels split: option.splits Declaration.splits)

lemma superTypeEdges_iff:
  "(j, i) \<in> superTypeEdges m \<longleftrightarrow>
     (\<exists>dm base. (i, dm) \<in> set (getDataModels m) \<and> isDelegateModel (DataModelDecl dm)
        \<and> Some j \<in> set (superTypes dm) \<and> deref m (Some j) = Some base)"
proof
  assume "(j, i) \<in> superTypeEdges m"
  then obtain dm where "(i, dm) \<in> set (getDataModels m)" "isDelegateModel (DataModelDecl dm)"
      and "Some j \<in> set (superTypes dm)" "deref m (Some j) \<noteq> None"
    unfolding superTypeEdges_def
    by (auto simp del: isDelegateModel.simps split: option.splits if_splits) metis
  then show "\<exists>dm base. (i, dm) \<in> set (getDataModels m) \<and> isDelegateModel (DataModelDecl dm)
        \<and> Some j \<in> set (superTypes dm) \<and> deref m (Some j) = Some base"
    by blast
next
  assume "\<exists>dm base. (i, dm) \<in> set (getDataModels m) \<and> isDelegateModel (DataModelDecl dm)
        \<and> Some j \<in> set (superTypes dm) \<and> deref m (Some j) = Some base"
  then obtain dm base where "(i, dm) \<in> set (getDataModels m)" "isDelegateModel (DataModelDecl dm)"
      "Some j \<in> set (superTypes dm)" "deref m (Some j) = Some base" by blast
  then show "(j, i) \<in> superTypeEdges m"
    unfolding superTypeEdges_def
    by (force simp del: isDelegateModel.simps split: option.splits if_splits)
qed

lemma walk_returns_below:
  assumes wf: "wf (superTypeEdges m)"
  shows "\<forall>dm result. (i, dm) \<in> set (getDataModels m) \<and> isDelegateModel (DataModelDecl dm)
           \<longrightarrow> (\<exists>r. walkSuperTypes m (superTypes dm) result = Some r)"
  using wf
proof (induction i rule: wf_induct_rule)
  case (less i)
  show ?case
  proof (intro allI impI)
    fix dm result
    assume h: "(i, dm) \<in> set (getDataModels m) \<and> isDelegateModel (DataModelDecl dm)"
    have "set sts \<subseteq> set (superTypes dm) \<Longrightarrow> \<exists>r. walkSuperTypes m sts res = Some r" for sts res
    proof (induction sts arbitrary: res)
      case Nil
      then show ?case by simp
    next
      case (Cons st rest)
      show ?case
      proof (cases "deref m st")
        case None
        then show ?thesis using Cons by simp
      next
        case (Some base)
        then obtain j where j: "st = Some j" "(j, base) \<in> set (getDataModels m)"
          by (auto simp: deref_Some_iff)
        have edge: "(j, i) \<in> superTypeEdges m"
          using h j Cons.prems Some by (auto simp: superTypeEdges_iff simp del: isDelegateModel.simps)
        have "\<exists>r. (if isDelegateModel (DataModelDecl base)
                 then walkSuperTypes m (superTypes base) (pushDiscriminator base res)
                 else Some res) = Some r"
          using less[OF edge] j by (auto simp del: isDelegateModel.simps)
        then obtain r where r: "(if isDelegateModel (DataModelDecl base)
                 then walkSuperTypes m (superTypes base) (pushDiscriminator base res)
                 else Some res) = Some r" by blast
        from Cons obtain r' where "walkSuperTypes m rest (r @ r) = Some r'" by fastforce
        then show ?thesis using Some r by (simp del: isDelegateModel.simps)
      qed
    qed
    then show "\<exists>r. walkSuperTypes m (superTypes dm) result = Some r" by blast
  qed
qed

lemma cyclic_deref:
  "deref cyclicModel (Some 0) = Some cycleA" "deref cyclicModel (Some (Suc 0)) = Some cycleB"
  by (simp_all add: deref_def cyclicModel_def nthOpt_def)

lemma cyclic_facts:
  "isDelegateModel (DataModelDecl cycleA)" "isDelegateModel (DataModelDecl cycleB)"
  "superTypes cycleA = [Some (Suc 0)]" "superTypes cycleB = [Some 0]"
  by (simp_all add: cycleA_def cycleB_def delegateMarker_def getAttribute_def)

lemma cyclic_walk_never_returns:
  assumes "walkSuperTypes m sts res = Some y"
  shows "\<not> (m = cyclicModel \<and> (sts = [Some 0] \<or> sts = [Some 1]))"
proof (rule walkSuperTypes.raw_induct[OF _ assms], goal_cases)
  case (1 f m sts result y)
  note IH = "1"(1) and body = "1"(2)
  show ?case
  proof
    assume c: "m = cyclicModel \<and> (sts = [Some 0] \<or> sts = [Some 1])"
    then consider "sts = [Some 0]" | "sts = [Some 1]" by blast
    then show False
    proof cases
      case 1
      with c body obtain r where "f cyclicModel [Some 1] (pushDiscriminator cycleA result) = Some r"
        by (auto simp: cyclic_deref cyclic_facts simp del: isDelegateModel.simps
                 split: Option.bind_splits)
      then show False using IH by blast
    next
      case 2
      with c body obtain r where "f cyclicModel [Some 0] (pushDiscriminator cycleB result) = Some r"
        by (auto simp: cyclic_deref cyclic_facts simp del: isDelegateModel.simps
                 split: Option.bind_splits)
      then show False using IH by blast
    qed
  qed
qed

text \<open>
  C7, as the code has it. The walk carries no set of visited entities: \<open>result\<close> collects
  discriminator fields and is never consulted. The walk returns whenever the supertype
  references that leave delegate-marked entities form no cycle.
\<close>

theorem discriminator_walk_returns_when_acyclic:
  assumes "acyclic (superTypeEdges m)" and "(i, delegate) \<in> set (getDataModels m)"
  shows "\<exists>r. getDiscriminatorFieldsRecursively m delegate result = Some r"
proof -
  have "finite (superTypeEdges m)" unfolding superTypeEdges_def by (rule finite_set)
  then have "wf (superTypeEdges m)" using assms(1) by (rule finite_acyclic_wf)
  then show ?thesis
    using walk_returns_below[of m i] assms(2)
    by (auto simp: getDiscriminatorFieldsRecursively_def simp del: isDelegateModel.simps)
qed

theorem discriminator_walk_returns_when_acyclic_witness:
  "acyclic (superTypeEdges twoLevelModel) \<and> (1, midModel) \<in> set (getDataModels twoLevelModel)
     \<and> getDiscriminatorFieldsRecursively twoLevelModel midModel []
         = Some [''type'', ''kind'', ''type'', ''kind'']"
proof -
  have e: "superTypeEdges twoLevelModel = {(0, 1)}" by code_simp
  have a: "acyclic (superTypeEdges twoLevelModel)" unfolding e by (simp, simp add: acyclic_def)
  have b: "(1, midModel) \<in> set (getDataModels twoLevelModel)" by code_simp
  have c: "getDiscriminatorFieldsRecursively twoLevelModel midModel []
             = Some [''type'', ''kind'', ''type'', ''kind'']" by code_simp
  from discriminator_walk_returns_when_acyclic[OF a b, of "[]"] a b c show ?thesis by simp
qed

text \<open>
  On the cyclic schema the walk from \<open>A\<close> does not return: \<open>A\<close> sends it to \<open>B\<close>, and \<open>B\<close>
  back to \<open>A\<close>.
\<close>

theorem discriminator_walk_cyclic_counterexample:
  "getDiscriminatorFieldsRecursively cyclicModel cycleA [] = None"
proof (cases "getDiscriminatorFieldsRecursively cyclicModel cycleA []")
  case None
  then show ?thesis .
next
  case (Some y)
  then have "walkSuperTypes cyclicModel [Some 1] (pushDiscriminator cycleA []) = Some y"
    by (simp add: getDiscriminatorFieldsRecursively_def cyclic_facts
             del: isDelegateModel.simps walkSuperTypes_Cons)
  then show ?thesis using cyclic_walk_never_returns[of cyclicModel "[Some 1]"] by blast
qed

section \<open>Properties: the external generator\<close>

text \<open>
  C8, as the code has it. When the silent invocation of the external generator fails, the
  generator is invoked once more with its output on the console, and the run then fails with
  the plugin's error whatever the second invocation did: the \<^verbatim>\<open>throw\<close> follows the inner
  \<^verbatim>\<open>try\<close>. Nothing of the client types is processed or saved.
\<close>

theorem failed_generation_is_fatal:
  assumes "\<not> execPackage (generateCmd logicalPrismaFile) StdioIgnore"
  shows "generateLogicalPrisma execPackage m logicalPrismaFile sf =
           ([GenerateLogicalSchema logicalPrismaFile,
             ExecPackage (generateCmd logicalPrismaFile) StdioIgnore,
             TrackPrismaSchemaError logicalPrismaFile,
             ExecPackage (generateCmd logicalPrismaFile) StdioInherit],
            Inl (PluginError pluginName
                   (''Failed to run \"prisma generate\" on logical schema: '' @ logicalPrismaFile)))"
  using assms by (simp add: generateLogicalPrisma_def Let_def)

theorem failed_generation_is_fatal_witness:
  "\<not> retrySucceeds (generateCmd ''logical.prisma'') StdioIgnore
   \<and> generateLogicalPrisma retrySucceeds twoLevelModel ''logical.prisma'' (sourceFileOf emptyModuleBlock) =
           ([GenerateLogicalSchema ''logical.prisma'',
             ExecPackage (generateCmd ''logical.prisma'') StdioIgnore,
             TrackPrismaSchemaError ''logical.prisma'',
             ExecPackage (generateCmd ''logical.prisma'') StdioInherit],
            Inl (PluginError pluginName
                   (''Failed to run \"prisma generate\" on logical schema: '' @ ''logical.prisma'')))"
  using failed_generation_is_fatal[of retrySucceeds "''logical.prisma''" twoLevelModel
          "sourceFileOf emptyModuleBlock"]
  by simp

text \<open>
  A run whose second invocation succeeds does not continue: it fails like any other.
\<close>

theorem retry_success_counterexample:
  "retrySucceeds (generateCmd ''logical.prisma'') StdioInherit
   \<and> snd (generateLogicalPrisma retrySucceeds twoLevelModel ''logical.prisma''
            (sourceFileOf emptyModuleBlock)) \<noteq> Inr ()"
  by (simp add: generateLogicalPrisma_def Let_def)

section \<open>Properties: the hierarchy index\<close>

lemma find_unique:
  assumes "x \<in> set xs" and "P x" and "\<And>y. y \<in> set xs \<Longrightarrow> P y \<Longrightarrow> y = x"
  shows "find P xs = Some x"
  using assms
proof (induction xs)
  case Nil
  then show ?case by simp
next
  case (Cons a xs)
  show ?case
  proof (cases "P a")
    case True
    then have "a = x" using Cons.prems(3)[of a] by simp
    with True show ?thesis by simp
  next
    case False
    with Cons.prems(1,2) have "x \<in> set xs" by auto
    moreover have "\<And>y. y \<in> set xs \<Longrightarrow> P y \<Longrightarrow> y = x" using Cons.prems(3) by simp
    ultimately have "find P xs = Some x" using Cons.IH Cons.prems(2) by blast
    with False show ?thesis by simp
  qed
qed

lemma getDataModels_functional:
  "(i, d) \<in> set (getDataModels m) \<Longrightarrow> (i, d') \<in> set (getDataModels m) \<Longrightarrow> d = d'"
  by (simp add: in_getDataModels)

lemma payloadRecord_found:
  assumes "(i, dm) \<in> set (getDataModels m)" and "isDelegateModel (DataModelDecl dm)"
    and "\<forall>(j, d) \<in> set (getDataModels m).
           isDelegateModel (DataModelDecl d) \<and> dmName d = dmName dm \<longrightarrow> j = i"
  shows "find (\<lambda>(delegate, concretes). ''$'' @ dmName delegate @ ''Payload'' = ''$'' @ dmName dm @ ''Payload'')
           (delegateInfoOf m) = Some (dm, subModels m i)"
proof (rule find_unique)
  show "(dm, subModels m i) \<in> set (delegateInfoOf m)"
    using assms(1,2) by (force simp: delegateInfoOf_def simp del: isDelegateModel.simps)
  show "case (dm, subModels m i) of (delegate, concretes) \<Rightarrow>
          ''$'' @ dmName delegate @ ''Payload'' = ''$'' @ dmName dm @ ''Payload''"
    by simp
  fix y
  assume y: "y \<in> set (delegateInfoOf m)"
    and n: "case y of (delegate, concretes) \<Rightarrow>
          ''$'' @ dmName delegate @ ''Payload'' = ''$'' @ dmName dm @ ''Payload''"
  from y obtain j d where jd: "(j, d) \<in> set (getDataModels m)" "isDelegateModel (DataModelDecl d)"
      "y = (d, subModels m j)"
    by (auto simp: delegateInfoOf_def simp del: isDelegateModel.simps)
  with n have "dmName d = dmName dm" by simp
  with jd assms(3) have "j = i" by blast
  with jd assms(1) have "d = dm" using getDataModels_functional by blast
  with \<open>j = i\<close> jd show "y = (dm, subModels m i)" by simp
qed

lemma hasDelegateModel_spec: "hasDelegateModel m = specNeedsProjection m"
proof -
  have "list_ex (\<lambda>(j, sub). list_ex (\<lambda>base. base = Some i) (superTypes sub)) (getDataModels m)
          = (subModels m i \<noteq> [])" for i
    by (auto simp: subModels_def list_ex_iff filter_empty_conv)
  then show ?thesis
    by (simp add: hasDelegateModel_def specNeedsProjection_def Let_def del: isDelegateModel.simps)
qed

lemma delegateInfoOf_empty:
  "list_all (\<lambda>d. \<not> isDelegateModel d) (declarations m) \<Longrightarrow> delegateInfoOf m = []"
  by (auto simp: delegateInfoOf_def filter_empty_conv in_getDataModels list_all_iff
           simp del: isDelegateModel.simps) (metis nth_mem)

section \<open>Properties: the payload union\<close>

text \<open>
  C1, as the code has it. For a delegate-marked entity (the only one of its name among the
  delegate-marked entities), the rewrite of the alias \<^verbatim>\<open>$<Entity>Payload\<close> returns, when
  the discriminator resolves, the union over the entity's direct subtypes in the order of the
  index, each member being
  \<^verbatim>\<open>($<Subtype>Payload<ExtArgs> & { scalars: { <discriminator>: '<Subtype>' } })\<close>: the
  payload of the subtype is applied to the type argument \<^verbatim>\<open>ExtArgs\<close>. When the discriminator
  does not resolve, the rewrite returns the expression it was given.
\<close>

theorem payload_union:
  assumes "(i, dm) \<in> set (getDataModels m)" and "isDelegateModel (DataModelDecl dm)"
    and "\<forall>(j, d) \<in> set (getDataModels m).
           isDelegateModel (DataModelDecl d) \<and> dmName d = dmName dm \<longrightarrow> j = i"
    and "tasName (taStructure typeAlias) = ''$'' @ dmName dm @ ''Payload''"
  shows "fixDelegatePayloadType typeAlias (delegateInfoOf m) source =
           (case getDiscriminatorField dm of
              None \<Rightarrow> source
            | Some discriminatorName \<Rightarrow>
                join '' | ''
                  (map (\<lambda>concrete. ''($'' @ dmName concrete @ ''Payload<ExtArgs> & { scalars: { ''
                                      @ discriminatorName @ '': '' @ [CHR 0x27] @ dmName concrete
                                      @ [CHR 0x27] @ '' } })'')
                     (subModels m i)))"
  using payloadRecord_found[OF assms(1,2,3)] assms(4)
  by (simp add: fixDelegatePayloadType_def payloadUnionMember_def[abs_def] split: option.splits)

theorem payload_union_witness:
  "(0, baseModel) \<in> set (getDataModels baseABModel) \<and> isDelegateModel (DataModelDecl baseModel)
   \<and> tasName (taStructure basePayloadAlias) = ''$'' @ dmName baseModel @ ''Payload''
   \<and> subModels baseABModel 0 = [modelA, modelB]
   \<and> getDiscriminatorField baseModel = Some ''kind''
   \<and> fixDelegatePayloadType basePayloadAlias (delegateInfoOf baseABModel) flatRecord =
       ''($APayload<ExtArgs> & { scalars: { kind: '' @ [CHR 0x27] @ ''A'' @ [CHR 0x27] @ '' } }) | ($BPayload<ExtArgs> & { scalars: { kind: '' @ [CHR 0x27] @ ''B'' @ [CHR 0x27] @ '' } })''"
proof -
  have a: "(0, baseModel) \<in> set (getDataModels baseABModel)" by code_simp
  have b: "isDelegateModel (DataModelDecl baseModel)" by code_simp
  have c: "\<forall>(j, d) \<in> set (getDataModels baseABModel).
           isDelegateModel (DataModelDecl d) \<and> dmName d = dmName baseModel \<longrightarrow> j = 0" by code_simp
  have d: "tasName (taStructure basePayloadAlias) = ''$'' @ dmName baseModel @ ''Payload''" by code_simp
  have e: "subModels baseABModel 0 = [modelA, modelB]" by code_simp
  have f: "getDiscriminatorField baseModel = Some ''kind''" by code_simp
  have g: "dmName modelA = ''A''" "dmName modelB = ''B''" by (simp_all add: modelA_def modelB_def)
  from payload_union[OF a b c d, of flatRecord] a b c d e f g show ?thesis by simp 
qed

text \<open>
  For \<open>Base\<close> with the subtypes \<open>A\<close> and \<open>B\<close> the result is not the union of the members
  \<^verbatim>\<open>($APayload & { scalars: { kind: 'A' } })\<close> and \<^verbatim>\<open>($BPayload & { scalars: { kind: 'B' } })\<close>.
\<close>

theorem payload_union_counterexample:
  "fixDelegatePayloadType basePayloadAlias (delegateInfoOf baseABModel) flatRecord
     \<noteq> join '' | '' (map (specPayloadUnionMember ''kind'') [modelA, modelB])"
  by code_simp

text \<open>
  C10. A delegate-marked entity that no entity extends has an entry in the index, with no
  subtypes; the index is then not empty, so the transformation runs; and when the
  discriminator resolves, the alias \<^verbatim>\<open>$<Entity>Payload\<close> is rewritten to the union of no
  members, the empty expression. The witness is a schema the logical path is taken for
  because of a default that calls \<^verbatim>\<open>auth()\<close>, although it has no delegate hierarchy.
\<close>

theorem lone_delegate_payload:
  assumes "(i, dm) \<in> set (getDataModels m)" and "isDelegateModel (DataModelDecl dm)"
    and "subModels m i = []"
    and "getDiscriminatorField dm = Some discriminatorName"
    and "\<forall>(j, d) \<in> set (getDataModels m).
           isDelegateModel (DataModelDecl d) \<and> dmName d = dmName dm \<longrightarrow> j = i"
    and "tasName (taStructure typeAlias) = ''$'' @ dmName dm @ ''Payload''"
  shows "(dm, []) \<in> set (delegateInfoOf m)
         \<and> processClientTypes m sf = transformDelegate m sf (delegateInfoOf m)
         \<and> fixDelegatePayloadType typeAlias (delegateInfoOf m) source = []"
proof -
  have mem: "(dm, []) \<in> set (delegateInfoOf m)"
    using assms(1,2,3) by (force simp: delegateInfoOf_def simp del: isDelegateModel.simps)
  then have ne: "0 < length (delegateInfoOf m)" by (cases "delegateInfoOf m") auto
  have "fixDelegatePayloadType typeAlias (delegateInfoOf m) source = []"
    using payloadRecord_found[OF assms(1,2,5)] assms(3,4,6)
    by (simp add: fixDelegatePayloadType_def)
  with mem ne show ?thesis by (simp add: processClientTypes_def)
qed

theorem lone_delegate_payload_witness:
  "(0, baseModel) \<in> set (getDataModels loneDelegateModel)
   \<and> isDelegateModel (DataModelDecl baseModel)
   \<and> subModels loneDelegateModel 0 = []
   \<and> getDiscriminatorField baseModel = Some ''kind''
   \<and> tasName (taStructure basePayloadAlias) = ''$'' @ dmName baseModel @ ''Payload''
   \<and> \<not> hasDelegateModel loneDelegateModel
   \<and> needsLogicalClient defaultCallsAuth loneDelegateModel
   \<and> (baseModel, []) \<in> set (delegateInfoOf loneDelegateModel)
   \<and> fixDelegatePayloadType basePayloadAlias (delegateInfoOf loneDelegateModel) flatRecord = []
   \<and> map_sum id (\<lambda>s. map (map tasType \<circ> msTypeAliases) (sfsModules s))
        (processClientTypes loneDelegateModel (sourceFileOf baseClientBlock)) = Inr [[[]]]"
proof -
  have a: "(0, baseModel) \<in> set (getDataModels loneDelegateModel)" by code_simp
  have b: "isDelegateModel (DataModelDecl baseModel)" by code_simp
  have c: "subModels loneDelegateModel 0 = []" by code_simp
  have d: "getDiscriminatorField baseModel = Some ''kind''" by code_simp
  have e: "\<forall>(j, d) \<in> set (getDataModels loneDelegateModel).
           isDelegateModel (DataModelDecl d) \<and> dmName d = dmName baseModel \<longrightarrow> j = 0" by code_simp
  have f: "tasName (taStructure basePayloadAlias) = ''$'' @ dmName baseModel @ ''Payload''" by code_simp
  have g: "\<not> hasDelegateModel loneDelegateModel" by code_simp
  have h: "needsLogicalClient defaultCallsAuth loneDelegateModel" by code_simp
  have k: "map_sum id (\<lambda>s. map (map tasType \<circ> msTypeAliases) (sfsModules s))
        (processClientTypes loneDelegateModel (sourceFileOf baseClientBlock)) = Inr [[[]]]" by code_simp
  from lone_delegate_payload[OF a b c d e f, of "sourceFileOf baseClientBlock" flatRecord] a b c d e f g h k
  show ?thesis by simp
qed

section \<open>Properties: copy or transformation\<close>

text \<open>
  C5, as the code has it. The client types are copied as they are exactly when the index is
  empty, and the index has an entry for every entity that carries the delegate marker,
  extended or not: a schema in which no declaration carries the marker gives a copy.
\<close>

theorem copy_without_markers:
  assumes "list_all (\<lambda>d. \<not> isDelegateModel d) (declarations m)"
  shows "processClientTypes m sf = Inr (getFullText sf)"
  using delegateInfoOf_empty[OF assms] by (simp add: processClientTypes_def)

theorem copy_without_markers_witness:
  "list_all (\<lambda>d. \<not> isDelegateModel d) (declarations authOnlyModel)
   \<and> processClientTypes authOnlyModel (sourceFileOf baseClientBlock)
       = Inr (getFullText (sourceFileOf baseClientBlock))"
proof -
  have a: "list_all (\<lambda>d. \<not> isDelegateModel d) (declarations authOnlyModel)" by code_simp
  from copy_without_markers[OF a] a show ?thesis by simp
qed

text \<open>
  A schema whose only delegate-marked entity has no subtype has no delegate entity in the
  specification's sense. The logical path is taken for it because of a default that calls
  \<^verbatim>\<open>auth()\<close>, and its client types are transformed: the interface \<^verbatim>\<open>BaseDelegate\<close>
  loses \<^verbatim>\<open>create\<close> and the payload alias its type.
\<close>

theorem copy_counterexample:
  "\<not> specNeedsProjection loneDelegateModel
   \<and> needsLogicalClient defaultCallsAuth loneDelegateModel
   \<and> processClientTypes loneDelegateModel (sourceFileOf baseClientBlock)
       \<noteq> Inr (getFullText (sourceFileOf baseClientBlock))"
  by code_simp

section \<open>Properties: the re-export module\<close>

lemma savedModelsDts_append: "savedModelsDts (xs @ ys) = savedModelsDts xs @ savedModelsDts ys"
  by (induction xs rule: savedModelsDts.induct) auto

lemma logicalSchemas_append: "logicalSchemas (xs @ ys) = logicalSchemas xs @ logicalSchemas ys"
  by (induction xs rule: logicalSchemas.induct) auto

lemma generateLogicalPrisma_effects:
  "savedModelsDts (fst (generateLogicalPrisma execPackage m f sf)) = []"
  "logicalSchemas (fst (generateLogicalPrisma execPackage m f sf)) = [f]"
  by (auto simp: generateLogicalPrisma_def Let_def split: sum.splits)

text \<open>
  C6, as the code has it. The logical path is taken if and only if some entity is
  delegate-marked and has a subtype, or some field has a default that calls \<^verbatim>\<open>auth()\<close>.
  On that path the re-export module, saved once the logical client has been generated,
  points at the transformed declarations; otherwise it points at the original client.
\<close>

theorem reexport_target:
  "logicalSchemas (fst (generate isDefaultWithAuth execPackage prismaImport m logicalPrismaFile sf))
     = (if specNeedsProjection m \<or> hasAuthInDefault isDefaultWithAuth m then [logicalPrismaFile] else [])
   \<and> savedModelsDts (fst (generate isDefaultWithAuth execPackage prismaImport m logicalPrismaFile sf))
     = (if specNeedsProjection m \<or> hasAuthInDefault isDefaultWithAuth m
        then (if isl (snd (generateLogicalPrisma execPackage m logicalPrismaFile sf)) then []
              else [reexport ''./.logical-prisma-client/index-fixed''])
        else [reexport prismaImport])"
proof (cases "generateLogicalPrisma execPackage m logicalPrismaFile sf")
  case (Pair effects r)
  then show ?thesis
    using generateLogicalPrisma_effects[of execPackage m logicalPrismaFile sf]
    by (cases r) (simp_all add: generate_def needsLogicalClient_def hasDelegateModel_spec
          savedModelsDts_append logicalSchemas_append logicalPrismaClientDir_def)
qed

theorem reexport_target_witness:
  "logicalSchemas (fst (generate defaultCallsAuth alwaysSucceeds ''@prisma/client'' twoLevelModel
      ''logical.prisma'' (sourceFileOf emptyModuleBlock))) = [''logical.prisma'']
   \<and> savedModelsDts (fst (generate defaultCallsAuth alwaysSucceeds ''@prisma/client'' twoLevelModel
      ''logical.prisma'' (sourceFileOf emptyModuleBlock)))
       = [reexport ''./.logical-prisma-client/index-fixed'']"
proof -
  have a: "specNeedsProjection twoLevelModel" by code_simp
  have b: "\<not> isl (snd (generateLogicalPrisma alwaysSucceeds twoLevelModel ''logical.prisma''
             (sourceFileOf emptyModuleBlock)))" by code_simp
  from reexport_target[of defaultCallsAuth alwaysSucceeds "''@prisma/client''" twoLevelModel
         "''logical.prisma''" "sourceFileOf emptyModuleBlock"] a b
  show ?thesis by simp
qed

text \<open>
  A schema with no delegate hierarchy and a default that calls \<^verbatim>\<open>auth()\<close>: the re-export
  points at the transformed declarations.
\<close>

theorem reexport_counterexample:
  "\<not> specNeedsProjection authOnlyModel
   \<and> savedModelsDts (fst (generate defaultCallsAuth alwaysSucceeds ''@prisma/client'' authOnlyModel
        ''logical.prisma'' (sourceFileOf emptyModuleBlock)))
      = [reexport ''./.logical-prisma-client/index-fixed'']"
  by code_simp

section \<open>Properties: cutting a text out of a type expression\<close>














section \<open>Properties: the rewrites on type expressions written one member to a line\<close>

lemma propNodes_simps [simp]:
  "propNodes [] = []"
  "propNodes (Prop i n t # ls) = Node PropertySignature n t [] # propNodes ls"
  "propNodes (Plain p # ls) = propNodes ls"
  by (simp_all add: propNodes_def)











lemma removeNamed_simps [simp]:
  "removeNamed ta source [] = source"
  "removeNamed ta source (n # ns) =
     removeNamed ta (case findNamedProperty ta n of None \<Rightarrow> source
                     | Some node \<Rightarrow> replace source (nodeText node)) ns"
  by (simp_all add: removeNamed_def)
















section \<open>Properties: the pass on the namespace \<open>Prisma\<close>\<close>




section \<open>Properties: discriminators in the inputs of concrete entities\<close>

text \<open>
  C2, where the code departs from it. The rewrite looks up the property signature of each
  field of the discriminator chain and removes it with
  \<^verbatim>\<open>source.replace(discriminatorNode.getText(), '')\<close>, which cuts the first occurrence of
  that text in the type expression, wherever it is. In the two-level hierarchy of the claim
  the create input of \<open>Leaf\<close> does lose \<open>kind\<close> and \<open>type\<close>. \<open>Asset\<close>, the delegate that
  \<open>Video\<close> extends, has the discriminator \<open>type\<close> and a field \<open>mimetype\<close>: in the create
  input of \<open>Video\<close> the text \<^verbatim>\<open>type: string\<close> occurs first inside
  \<^verbatim>\<open>mimetype: string\<close>. That occurrence is cut, \<open>mime\<close> is what is left of the field,
  and the property \<open>type\<close> stays in the transformed type expression.
\<close>

theorem discriminator_kept_after_textual_cut:
  "superTypes videoEntity = [Some 0]
   \<and> deref mediaSchema (Some 0) = Some assetEntity
   \<and> getDiscriminatorField assetEntity = Some ''type''
   \<and> delegateInfoOf mediaSchema = [(assetEntity, [videoEntity])]
   \<and> regexTest (concreteCreateUpdateInputRegex [''Video'']) ''VideoCreateInput''
   \<and> propNames videoCreateLines = [''id'', ''mimetype'', ''type'', ''url'']
   \<and> transformTypeAlias mediaSchema (aliasOf ''VideoCreateInput'' videoCreateLines)
         (delegateInfoOf mediaSchema)
       = Inr \<lparr> tasName = ''VideoCreateInput'',
               tasType = render [Plain ''{'',
                                 Prop 4 ''id'' ''id?: string'',
                                 Plain ''    mime'',
                                 Prop 4 ''type'' ''type: string'',
                                 Prop 4 ''url'' ''url: string'',
                                 Plain ''}''] \<rparr>
   \<and> propNames leafCreateLines = [''id'', ''kind'', ''type'', ''url'']
   \<and> transformTypeAlias twoLevelModel (aliasOf ''LeafCreateInput'' leafCreateLines)
         (delegateInfoOf twoLevelModel)
       = Inr \<lparr> tasName = ''LeafCreateInput'', tasType = render leafBlankedLines \<rparr>
   \<and> propNames leafBlankedLines = [''id'', ''url'']"
  by code_simp

section \<open>Properties: capabilities of a delegate\<close>

text \<open>
  C3, where the code departs from it. The pattern of \<^verbatim>\<open>removeCreateFromDelegateInput\<close> is
  built without the parentheses its sibling puts around the names, and with a backslash in
  front of the first name. With the delegates \<open>Asset\<close> and \<open>Video\<close> it reads
  \<^verbatim>\<open>\Asset|Video(Unchecked)?(Create|Update).*Input\<close> and matches every name that contains
  \<open>Asset\<close>: the nested create input of \<open>User\<close>, which is the create or update input of no
  delegate, loses \<open>create\<close> and \<open>connectOrCreate\<close>. With the single delegate \<open>Workspace\<close>
  it reads \<^verbatim>\<open>\Workspace(Unchecked)?(Create|Update).*Input\<close>, where \<^verbatim>\<open>\W\<close> is a character
  that is not a word character: the nested create input of \<open>Workspace\<close> keeps \<open>create\<close>.
\<close>

theorem create_removed_from_other_input:
  "map (\<lambda>(delegate, concretes). dmName delegate) (delegateInfoOf catalogSchema) = [''Asset'', ''Video'']
   \<and> regexExec (concreteCreateUpdateInputRegex [''Asset'', ''Video''])
         ''UserCreateNestedOneWithoutAssetsInput'' = None
   \<and> transformTypeAlias catalogSchema
         (aliasOf ''UserCreateNestedOneWithoutAssetsInput'' userNestedLines)
         (delegateInfoOf catalogSchema)
       = Inr \<lparr> tasName = ''UserCreateNestedOneWithoutAssetsInput'',
               tasType = render [Plain ''{'',
                                 Plain ''    '',
                                 Plain ''    '',
                                 Prop 4 ''connect'' ''connect?: UserWhereUniqueInput'',
                                 Plain ''}''] \<rparr>
   \<and> map (\<lambda>(delegate, concretes). dmName delegate) (delegateInfoOf workspaceSchema) = [''Workspace'']
   \<and> transformTypeAlias workspaceSchema
         (aliasOf ''WorkspaceCreateNestedOneWithoutMembersInput'' workspaceNestedLines)
         (delegateInfoOf workspaceSchema)
       = Inr \<lparr> tasName = ''WorkspaceCreateNestedOneWithoutMembersInput'',
               tasType = render workspaceNestedLines \<rparr>"
  by code_simp

section \<open>Properties: members with the reserved prefix\<close>




section \<open>Properties: absent targets and a second run\<close>





















end
